theory Spec2Isabelle
  imports Complex_Main
begin

section \<open>Numbers and vectors\<close>

text \<open>
  The program computes with JavaScript numbers stored in gl-matrix vectors. The model
  reads every number as a real: rounding is not modelled, and a step whose IEEE result
  is an infinity or a NaN (a division by zero, a power of a negative base) has no real
  value, so the operation that contains it returns \<open>None\<close>.

  A \<open>vec3\<close> is the triple of its components 0, 1, 2 and a \<open>vec2\<close> the pair of its
  components 0, 1. The gl-matrix functions take the vector they write as first argument
  \<open>out\<close>; the model returns the new contents of \<open>out\<close>.
\<close>

type_synonym vec3 = "real \<times> real \<times> real"
type_synonym vec2 = "real \<times> real"

fun vx :: "vec3 \<Rightarrow> real" where "vx (a, b, c) = a"
fun vy :: "vec3 \<Rightarrow> real" where "vy (a, b, c) = b"
fun vz :: "vec3 \<Rightarrow> real" where "vz (a, b, c) = c"

fun set_x :: "vec3 \<Rightarrow> real \<Rightarrow> vec3" where "set_x (a, b, c) v = (v, b, c)"
fun set_y :: "vec3 \<Rightarrow> real \<Rightarrow> vec3" where "set_y (a, b, c) v = (a, v, c)"
fun set_z :: "vec3 \<Rightarrow> real \<Rightarrow> vec3" where "set_z (a, b, c) v = (a, b, v)"

definition vec3_create :: vec3 where
  "vec3_create = (0, 0, 0)"

fun vec3_add :: "vec3 \<Rightarrow> vec3 \<Rightarrow> vec3" where
  "vec3_add (a0, a1, a2) (b0, b1, b2) = (a0 + b0, a1 + b1, a2 + b2)"

fun vec3_sub :: "vec3 \<Rightarrow> vec3 \<Rightarrow> vec3" where
  "vec3_sub (a0, a1, a2) (b0, b1, b2) = (a0 - b0, a1 - b1, a2 - b2)"

fun vec3_scale :: "vec3 \<Rightarrow> real \<Rightarrow> vec3" where
  "vec3_scale (a0, a1, a2) s = (a0 * s, a1 * s, a2 * s)"

fun vec3_scaleAndAdd :: "vec3 \<Rightarrow> vec3 \<Rightarrow> real \<Rightarrow> vec3" where
  "vec3_scaleAndAdd (a0, a1, a2) (b0, b1, b2) s = (a0 + b0 * s, a1 + b1 * s, a2 + b2 * s)"

fun vec3_sqlen :: "vec3 \<Rightarrow> real" where
  "vec3_sqlen (a0, a1, a2) = a0 * a0 + a1 * a1 + a2 * a2"

definition vec3_length :: "vec3 \<Rightarrow> real" where
  "vec3_length a = sqrt (vec3_sqlen a)"

text \<open>
  \<open>vec3.normalize(out, a)\<close> of gl-matrix 2.x, the release line the repository was
  written against: the squared length is tested with \<open>len > 0\<close> and the three writes to
  \<open>out\<close> are inside that test, so a zero-length \<open>a\<close> leaves \<open>out\<close> as it was.
\<close>

definition vec3_normalize :: "vec3 \<Rightarrow> vec3 \<Rightarrow> vec3" where
  "vec3_normalize out a =
     (let len = vec3_sqlen a
      in if len > 0 then vec3_scale a (1 / sqrt len) else out)"

text \<open>
  Modelled from the spec: \<open>MathHelper.vec3_truncate(out, a, max)\<close>, whose file is not
  part of the sources. The spec's clamp operation returns \<open>a\<close> unchanged when its
  magnitude is at most \<open>max\<close> and otherwise the vector of the same direction and of
  magnitude \<open>max\<close>.
\<close>

definition vec3_truncate :: "vec3 \<Rightarrow> real \<Rightarrow> vec3" where
  "vec3_truncate a mx =
     (if vec3_length a > mx then vec3_scale a (mx / vec3_length a) else a)"

text \<open>
  Modelled from the spec: \<open>MathHelper.vec2_rotate(out, a, rad)\<close>, whose file is not
  part of the sources: the rotation of a 2D vector by an angle.
\<close>

fun vec2_rotate :: "vec2 \<Rightarrow> real \<Rightarrow> vec2" where
  "vec2_rotate (a0, a1) rad = (a0 * cos rad - a1 * sin rad, a0 * sin rad + a1 * cos rad)"

section \<open>The collaborators of the entities\<close>

text \<open>
  \<open>World\<close> and \<open>Collision\<close> are not part of the sources. Their queries are read-only,
  so a world is the record of its query functions and the cylinder test is a parameter.
  \<open>getRandomXZPosition\<close> draws a random point: the vector it would return in the
  current frame is an argument of the operation that may call it.
\<close>

record world =
  isCylinderCollisionWithDisk :: "vec3 \<Rightarrow> real \<Rightarrow> real \<Rightarrow> bool"
  isOnDisk :: "real \<Rightarrow> real \<Rightarrow> real \<Rightarrow> bool"
  getHeightAtCirclePosition :: "real \<Rightarrow> real \<Rightarrow> real \<Rightarrow> real"
  getHeightAtPointPosition :: "real \<Rightarrow> real \<Rightarrow> real"
  getFrictionAtPosition :: "real \<Rightarrow> real \<Rightarrow> real"
  getSlopeFactorAtPosition :: "real \<Rightarrow> real \<Rightarrow> real"

type_synonym cylinder_test = "vec3 \<Rightarrow> real \<Rightarrow> real \<Rightarrow> vec3 \<Rightarrow> real \<Rightarrow> real \<Rightarrow> bool"

datatype Player_State = Standing | Jumping | Falling

record player =
  p_position :: vec3
  p_forward :: vec3
  p_velocity :: vec3
  jumping :: bool
  p_radius :: real
  p_half_height :: real
  model_radius :: real
  model_half_height :: real
  model_state :: Player_State

section \<open>Bat\<close>

datatype Bat_State = DEAD | PURSUE | EXPLORE

record bat =
  position :: vec3
  forward :: vec3
  radius :: real
  half_height :: real
  state :: Bat_State
  velocity :: vec3
  target_position :: vec3
  ignore_timer :: real

definition S_MAX :: real where "S_MAX = 5.0"
definition S_MIN :: real where "S_MIN = 1.0"
definition A_MAX :: real where "A_MAX = 8.0"

text \<open>
  The constructor. \<open>r1\<close> and \<open>r2\<close> are the two values \<open>Random.randf(0, S_MAX)\<close>
  returns, \<open>rnd\<close> the vector \<open>getRandomXZPosition\<close> returns, \<open>fwd0\<close> the forward
  vector the \<open>Entity\<close> constructor has set.
\<close>

definition Bat_new :: "vec3 \<Rightarrow> real \<Rightarrow> real \<Rightarrow> real \<Rightarrow> real \<Rightarrow> vec3 \<Rightarrow> vec3 \<Rightarrow> bat" where
  "Bat_new pos m_radius m_half_height r1 r2 rnd fwd0 =
     (let vel = (r1, 0, r2)
      in \<lparr> position = pos,
           forward = vec3_normalize fwd0 vel,
           radius = m_radius,
           half_height = m_half_height,
           state = EXPLORE,
           velocity = vel,
           target_position = set_y rnd 15.0,
           ignore_timer = 0 \<rparr>)"

text \<open>
  \<open>seek\<close>. \<open>1 / delta_s\<close> is an infinity when \<open>delta_s\<close> is zero, and every vector
  computed from it holds infinities or NaNs: the model returns \<open>None\<close> there.
\<close>

definition seek :: "real \<Rightarrow> bat \<Rightarrow> bat option" where
  "seek delta_s b =
     (if delta_s = 0 then None
      else
        let R = vec3_sub (target_position b) (position b);
            D = vec3_normalize vec3_create R;
            D = vec3_scale D S_MAX;
            S = vec3_sub D (velocity b);
            A_desired = vec3_scale S (1 / delta_s);
            A = vec3_truncate A_desired A_MAX;
            vel = vec3_truncate (vec3_scaleAndAdd (velocity b) A delta_s) S_MAX;
            pos = vec3_scaleAndAdd (position b) vel delta_s
        in Some (b\<lparr> velocity := vel, position := pos,
                     forward := vec3_normalize (forward b) vel \<rparr>))"

definition explore :: "cylinder_test \<Rightarrow> vec3 \<Rightarrow> real \<Rightarrow> bat \<Rightarrow> bat option" where
  "explore cylinderIntersection rnd delta_s b =
     (let b1 = (if cylinderIntersection (position b) (radius b) (half_height b)
                     (target_position b) 2.0 1.0
                then b\<lparr> target_position := set_y rnd 15.0 \<rparr>
                else b)
      in seek delta_s b1)"

definition pursue :: "player \<Rightarrow> real \<Rightarrow> bat \<Rightarrow> bat option" where
  "pursue p delta_s b =
     (let D = vec3_sub (p_position p) (position b);
          s = vec3_length D * 0.3;
          T = vec3_scaleAndAdd (p_position p) (p_velocity p) s
      in seek delta_s (b\<lparr> target_position := T \<rparr>))"

definition update :: "cylinder_test \<Rightarrow> world \<Rightarrow> player \<Rightarrow> vec3 \<Rightarrow> real \<Rightarrow> bat \<Rightarrow> bat option" where
  "update cylinderIntersection w p rnd delta_ms b =
     (let delta_s = delta_ms / 1000
      in if state b = DEAD then Some b
         else
           let t = ignore_timer b - delta_s;
               b1 = b\<lparr> ignore_timer := (if t < 0 then 0 else t) \<rparr>
           in if isCylinderCollisionWithDisk w (position b1) (radius b1) 0
              then Some (b1\<lparr> state := DEAD, ignore_timer := 1.0 \<rparr>)
              else
                let b2 = (if cylinderIntersection (position b1) (radius b1 + 20)
                               (half_height b1 + 20) (p_position p) (p_radius p)
                               (p_half_height p)
                          then b1\<lparr> state := PURSUE \<rparr>
                          else b1\<lparr> state := EXPLORE \<rparr>)
                in (case state b2 of
                      EXPLORE \<Rightarrow> explore cylinderIntersection rnd delta_s b2
                    | PURSUE \<Rightarrow> pursue p delta_s b2
                    | DEAD \<Rightarrow> Some b2))"

section \<open>Player\<close>

text \<open>
  The module keeps scratch vectors in variables of its own. \<open>old_pos\<close>, \<open>new_pos\<close> and
  \<open>accel\<close> are written in full before they are read and are local values in the model.
  \<open>dir\<close> and \<open>min_direction\<close> are two variables that each hold a reference to a
  \<open>vec2\<close> array, and \<open>update\<close> assigns one variable to the other, so the model keeps
  the two arrays and the reference held by \<open>min_direction\<close> (\<open>dir\<close> is never assigned
  and always refers to the first array).
\<close>

datatype vec2_ref = DIR_ARRAY | MIN_DIRECTION_ARRAY

record scratch =
  dir_array :: vec2
  min_direction_array :: vec2
  min_direction :: vec2_ref

definition scratch_init :: scratch where
  "scratch_init = \<lparr> dir_array = (0, 0), min_direction_array = (0, 0),
                     min_direction = MIN_DIRECTION_ARRAY \<rparr>"

definition read_vec2 :: "scratch \<Rightarrow> vec2_ref \<Rightarrow> vec2" where
  "read_vec2 s r = (case r of DIR_ARRAY \<Rightarrow> dir_array s
                            | MIN_DIRECTION_ARRAY \<Rightarrow> min_direction_array s)"

definition write_vec2 :: "scratch \<Rightarrow> vec2_ref \<Rightarrow> vec2 \<Rightarrow> scratch" where
  "write_vec2 s r v = (case r of DIR_ARRAY \<Rightarrow> s\<lparr> dir_array := v \<rparr>
                               | MIN_DIRECTION_ARRAY \<Rightarrow> s\<lparr> min_direction_array := v \<rparr>)"

definition GRAVITY :: vec3 where
  "GRAVITY = (0, - 9.8, 0)"

text \<open>
  \<open>Math.pow\<close> on the arguments whose result is a real number; \<open>None\<close> where it is an
  infinity or a NaN.
\<close>

definition Math_pow :: "real \<Rightarrow> real \<Rightarrow> real option" where
  "Math_pow b e =
     (if e = 0 then Some 1
      else if b > 0 then Some (b powr e)
      else if b = 0 then (if e > 0 then Some 0 else None)
      else if e \<in> \<int> then Some ((if even \<lfloor>e\<rfloor> then 1 else - 1) * ((- b) powr e))
      else None)"

definition addAcceleration :: "vec3 \<Rightarrow> player \<Rightarrow> player" where
  "addAcceleration a p =
     (if \<not> jumping p then p\<lparr> p_velocity := vec3_add (p_velocity p) a \<rparr> else p)"

text \<open>
  The loop of \<open>update\<close> over the 60 sample directions, from index \<open>i\<close> on. It carries
  \<open>min_height\<close> and the scratch arrays.
\<close>

function sample_loop :: "world \<Rightarrow> vec3 \<Rightarrow> nat \<Rightarrow> real \<Rightarrow> scratch \<Rightarrow> real \<times> scratch" where
  "sample_loop w new_pos i min_height s =
     (if i < 60 then
        let s1 = write_vec2 s DIR_ARRAY (1, 0);
            s2 = write_vec2 s1 DIR_ARRAY
                   (vec2_rotate (read_vec2 s1 DIR_ARRAY) (pi * 2 * (real i / 60)));
            dir = read_vec2 s2 DIR_ARRAY;
            h = getHeightAtPointPosition w (vx new_pos + fst dir * 0.01)
                  (vz new_pos + snd dir * 0.01)
        in if h < min_height
           then sample_loop w new_pos (i + 1) h (s2\<lparr> min_direction := DIR_ARRAY \<rparr>)
           else sample_loop w new_pos (i + 1) min_height s2
      else (min_height, s))"
  by pat_completeness auto
termination
  by (relation "measure (\<lambda>(w, new_pos, i, min_height, s). 60 - i)") auto

declare sample_loop.simps [simp del]

text \<open>
  The direction that the loop writes to the \<open>dir\<close> array at index \<open>i\<close>, and the
  terrain height that it samples there.
\<close>

definition sample_dir :: "nat \<Rightarrow> vec2" where
  "sample_dir i = vec2_rotate (1, 0) (pi * 2 * (real i / 60))"

definition sample_height :: "world \<Rightarrow> vec3 \<Rightarrow> nat \<Rightarrow> real" where
  "sample_height w new_pos i =
     getHeightAtPointPosition w (vx new_pos + fst (sample_dir i) * 0.01)
       (vz new_pos + snd (sample_dir i) * 0.01)"

definition Player_update :: "world \<Rightarrow> real \<Rightarrow> player \<times> scratch \<Rightarrow> (player \<times> scratch) option" where
  "Player_update w delta_time_ms ps =
     (let p = fst ps; s = snd ps;
          delta_time_s = delta_time_ms / 1000;
          old_pos = p_position p;
          new_pos = vec3_scaleAndAdd (p_position p) (p_velocity p) delta_time_s;
          player_base_y = getHeightAtCirclePosition w (vx new_pos) (vz new_pos) (model_radius p);
          player_y = player_base_y + model_half_height p
      in if jumping p then
           let p1 = p\<lparr> p_velocity := vec3_scaleAndAdd (p_velocity p) GRAVITY delta_time_s \<rparr>
           in if isCylinderCollisionWithDisk w new_pos (model_radius p) (model_half_height p)
              then
                if isCylinderCollisionWithDisk w old_pos (model_radius p) (model_half_height p)
                then Some (p1\<lparr> jumping := False, model_state := Standing,
                                p_velocity := set_y (p_velocity p1) 0,
                                p_position := set_y new_pos player_y \<rparr>, s)
                else Some (p1\<lparr> p_velocity := set_x (set_z (p_velocity p1) 0) 0,
                                p_position := set_z (set_x new_pos (vx old_pos)) (vz old_pos) \<rparr>, s)
              else Some (p1\<lparr> p_position := new_pos \<rparr>, s)
         else
           if isOnDisk w (vx new_pos) (vz new_pos) (model_radius p) then
             let new_pos = set_y new_pos player_y;
                 p1 = p\<lparr> p_velocity := set_y (p_velocity p) 0 \<rparr>;
                 friction = getFrictionAtPosition w (vx new_pos) (vz new_pos)
             in (case Math_pow friction delta_time_s of
                   None \<Rightarrow> None
                 | Some f \<Rightarrow>
                     let p2 = p1\<lparr> p_velocity := vec3_scale (p_velocity p1) f \<rparr>;
                         min_slope = getSlopeFactorAtPosition w (vx new_pos) (vz new_pos);
                         s1 = write_vec2 s (min_direction s) (0, 0);
                         (min_height, s2) = sample_loop w new_pos 0 player_base_y s1;
                         slope = (player_base_y - min_height) / 0.01;
                         p3 = (if slope > min_slope then
                                 let a = (slope - min_slope) * 10.0 * delta_time_s;
                                     md = read_vec2 s2 (min_direction s2);
                                     accel = (fst md, 0, snd md);
                                     accel = vec3_scale accel a
                                 in addAcceleration accel p2
                               else p2)
                     in Some (p3\<lparr> p_position := new_pos \<rparr>, s2))
           else Some (p\<lparr> jumping := True, model_state := Falling, p_position := new_pos \<rparr>, s))"

text \<open>
  \<open>hitByBat\<close> writes to its argument in one branch, so the model returns the contents
  of the \<open>bat_velocity\<close> array after the call beside the player. The argument is an
  array other than the player's own velocity.
\<close>

definition hitByBat :: "vec3 \<Rightarrow> player \<Rightarrow> player \<times> vec3" where
  "hitByBat bat_velocity p =
     (if jumping p then
        let bat_velocity = vec3_normalize bat_velocity bat_velocity
        in (p\<lparr> p_velocity := vec3_scaleAndAdd (p_velocity p) bat_velocity 7.0 \<rparr>, bat_velocity)
      else
        let v = bat_velocity;
            v = set_y v 0;
            v = vec3_scale (vec3_normalize v v) 5.0;
            v = set_y v 5.0
        in (p\<lparr> p_velocity := v, model_state := Jumping, jumping := True \<rparr>, bat_velocity))"

section \<open>Sample inputs\<close>

text \<open>
  Modelled from the spec: a cylinder test and a world to run the operations on, since
  \<open>Collision\<close> and \<open>World\<close> are not part of the sources. Two upright cylinders
  intersect when their footprints overlap and their heights overlap; the world is the
  spec's single disk at the origin, of radius 5 and height 0, a thin slab that a cylinder
  hits when its footprint overlaps the disk's and its height range contains the disk's
  height.
\<close>

definition upright_cylinderIntersection :: cylinder_test where
  "upright_cylinderIntersection p1 r1 h1 p2 r2 h2 =
     ((vx p1 - vx p2)\<^sup>2 + (vz p1 - vz p2)\<^sup>2 \<le> (r1 + r2)\<^sup>2 \<and> \<bar>vy p1 - vy p2\<bar> \<le> h1 + h2)"

definition single_disk_world :: world where
  "single_disk_world =
     \<lparr> isCylinderCollisionWithDisk =
         (\<lambda>pos r hh. (vx pos)\<^sup>2 + (vz pos)\<^sup>2 \<le> (5 + r)\<^sup>2 \<and> \<bar>vy pos - 0\<bar> \<le> hh),
       isOnDisk = (\<lambda>x z r. x\<^sup>2 + z\<^sup>2 \<le> (5 + r)\<^sup>2),
       getHeightAtCirclePosition = (\<lambda>x z r. if x\<^sup>2 + z\<^sup>2 \<le> (5 + r)\<^sup>2 then 0 else - 1000000),
       getHeightAtPointPosition = (\<lambda>x z. if x\<^sup>2 + z\<^sup>2 \<le> 5\<^sup>2 then 0 else - 1000000),
       getFrictionAtPosition = (\<lambda>x z. 1),
       getSlopeFactorAtPosition = (\<lambda>x z. 0) \<rparr>"

definition player0 :: player where
  "player0 = \<lparr> p_position = (0, 0.8, 0), p_forward = (1, 0, 0), p_velocity = (0, 0, 0),
               jumping = False, p_radius = 0.25, p_half_height = 0.8,
               model_radius = 0.25, model_half_height = 0.8, model_state = Standing \<rparr>"

definition player_air :: player where
  "player_air = player0\<lparr> p_position := (0, 0.5, 0), p_velocity := (1, - 1, 0), jumping := True,
                         model_state := Jumping \<rparr>"

definition player_high :: player where
  "player_high = player0\<lparr> p_position := (0, 1, 0), p_velocity := (1, - 5, 0), jumping := True,
                          model_state := Jumping \<rparr>"

definition bat0 :: bat where
  "bat0 = \<lparr> position = (0, 0.05, 0), forward = (0, 0, 1), radius = 0.7, half_height = 0.1,
            state = EXPLORE, velocity = (0, 0, 0), target_position = (0, 0.05, 0),
            ignore_timer = 0 \<rparr>"

definition bat_cruise :: bat where
  "bat_cruise = \<lparr> position = (0, 15, 0), forward = (1, 0, 0), radius = 0.7, half_height = 0.1,
                  state = EXPLORE, velocity = (3, 0, 4), target_position = (6, 15, 8),
                  ignore_timer = 0 \<rparr>"

definition bat_fast :: bat where
  "bat_fast = Bat_new (0, 15, 0) 0.7 0.1 4 4 (6, 0, 8) (1, 0, 0)"

text \<open>
  A second world, a ramp: the terrain at \<open>(x, z)\<close> has the height \<open>x\<close>, so it falls
  towards negative \<open>x\<close>, and the highest terrain under a circle of radius \<open>r\<close> is
  \<open>x + r\<close>. Its friction factor is 1 and its slope threshold is 1. A player stands on
  it at rest.
\<close>

definition ramp_world :: world where
  "ramp_world =
     \<lparr> isCylinderCollisionWithDisk = (\<lambda>pos r hh. vy pos - hh \<le> vx pos + r),
       isOnDisk = (\<lambda>x z r. True),
       getHeightAtCirclePosition = (\<lambda>x z r. x + r),
       getHeightAtPointPosition = (\<lambda>x z. x),
       getFrictionAtPosition = (\<lambda>x z. 1),
       getSlopeFactorAtPosition = (\<lambda>x z. 1) \<rparr>"

definition player_ramp :: player where
  "player_ramp = \<lparr> p_position = (0, 1.05, 0), p_forward = (1, 0, 0), p_velocity = (0, 0, 0),
                   jumping = False, p_radius = 0.25, p_half_height = 0.8,
                   model_radius = 0.25, model_half_height = 0.8, model_state = Standing \<rparr>"

text \<open>The fields of a bat that the steering moves: all but the timer and the size.\<close>

definition bat_motion :: "bat \<Rightarrow> Bat_State \<times> vec3 \<times> vec3 \<times> vec3 \<times> vec3" where
  "bat_motion b = (state b, position b, velocity b, forward b, target_position b)"

section \<open>Vector facts\<close>

lemma sqrt_25: "sqrt 25 = 5"
  using real_sqrt_abs [of 5] by simp

lemma sqrt_100: "sqrt 100 = 10"
  using real_sqrt_abs [of 10] by simp

lemma vec3_sqlen_nonneg: "0 \<le> vec3_sqlen a"
  by (cases a) simp

lemma vec3_sqlen_scale: "vec3_sqlen (vec3_scale a s) = s\<^sup>2 * vec3_sqlen a"
  by (cases a) (simp add: power2_eq_square algebra_simps)

lemma vec3_length_scale: "vec3_length (vec3_scale a s) = \<bar>s\<bar> * vec3_length a"
  by (simp add: vec3_length_def vec3_sqlen_scale real_sqrt_mult)

lemma vec3_sqlen_zero_iff: "vec3_sqlen a = 0 \<longleftrightarrow> a = (0, 0, 0)"
proof (cases a)
  case (fields a0 a1 a2)
  have "a0 * a0 + a1 * a1 + a2 * a2 = 0 \<longleftrightarrow> a0 = 0 \<and> a1 = 0 \<and> a2 = 0"
    by (smt (verit) not_sum_squares_lt_zero mult_eq_0_iff zero_le_square)
  then show ?thesis using fields by simp
qed

lemma vec3_length_truncate:
  assumes "0 \<le> mx"
  shows "vec3_length (vec3_truncate a mx) \<le> mx"
proof (cases "vec3_length a > mx")
  case True
  then have pos: "0 < vec3_length a" using assms by linarith
  have "vec3_length (vec3_truncate a mx) = \<bar>mx / vec3_length a\<bar> * vec3_length a"
    using True by (simp add: vec3_truncate_def vec3_length_scale)
  also have "\<dots> = mx" using pos assms by simp
  finally show ?thesis by simp
next
  case False
  then show ?thesis by (simp add: vec3_truncate_def)
qed

lemma vec3_normalize_zero: "vec3_normalize out (0, 0, 0) = out"
  by (simp add: vec3_normalize_def)

lemma vec3_normalize_nonzero:
  assumes "a \<noteq> (0, 0, 0)"
  shows "vec3_normalize out a = vec3_scale a (1 / vec3_length a)"
    and "vec3_length (vec3_normalize out a) = 1"
proof -
  have "vec3_sqlen a \<noteq> 0" using assms by (simp add: vec3_sqlen_zero_iff)
  then have pos: "0 < vec3_sqlen a" using vec3_sqlen_nonneg [of a] by linarith
  then show n: "vec3_normalize out a = vec3_scale a (1 / vec3_length a)"
    by (simp add: vec3_normalize_def vec3_length_def)
  have "0 < vec3_length a" using pos by (simp add: vec3_length_def)
  then show "vec3_length (vec3_normalize out a) = 1"
    by (simp add: n vec3_length_scale)
qed

section \<open>Runs of the bat on the sample inputs\<close>

lemma seek_bat0: "seek 1 bat0 = Some bat0"
  by (simp add: seek_def bat0_def vec3_create_def vec3_normalize_def vec3_truncate_def
      vec3_length_def S_MAX_def A_MAX_def)

lemma seek_bat_cruise:
  "seek 1 bat_cruise = Some (bat_cruise\<lparr> position := (3, 15, 4), forward := (3 / 5, 0, 4 / 5) \<rparr>)"
  by (simp add: seek_def bat_cruise_def vec3_create_def vec3_normalize_def vec3_truncate_def
      vec3_length_def S_MAX_def A_MAX_def sqrt_25 sqrt_100)

lemma bat_fast_speed: "vec3_length (velocity bat_fast) > S_MAX"
proof -
  have "(5::real) < sqrt 32" by (rule real_less_rsqrt) simp
  then show ?thesis by (simp add: bat_fast_def Bat_new_def Let_def vec3_length_def S_MAX_def)
qed

lemma update_alive_state:
  assumes "state b \<noteq> DEAD"
    and "\<not> isCylinderCollisionWithDisk w (position b) (radius b) 0"
    and "delta_ms \<noteq> 0"
  shows "map_option state (update ci w p rnd delta_ms b) =
           Some (if ci (position b) (radius b + 20) (half_height b + 20)
                      (p_position p) (p_radius p) (p_half_height p)
                 then PURSUE else EXPLORE)"
  using assms by (simp add: update_def Let_def explore_def pursue_def seek_def)

section \<open>The steering of the bat\<close>

text \<open>
  C1. A call of \<open>seek\<close> with a positive time step returns, and the velocity it leaves
  has magnitude at most \<open>S_MAX\<close>, whatever the velocity before the call was, also one
  faster than \<open>S_MAX\<close>.
\<close>

theorem seek_speed_bounded:
  assumes "0 < delta_s"
  shows "\<exists>b'. seek delta_s b = Some b' \<and> vec3_length (velocity b') \<le> S_MAX"
  using assms by (simp add: seek_def Let_def vec3_length_truncate S_MAX_def)

theorem seek_speed_bounded_witness:
  "(0::real) < 1 \<and> vec3_length (velocity bat_fast) > S_MAX
   \<and> (\<exists>b'. seek 1 bat_fast = Some b' \<and> vec3_length (velocity b') \<le> S_MAX)"
proof -
  have h: "(0::real) < 1" by simp
  show ?thesis using h seek_speed_bounded [OF h, of bat_fast] bat_fast_speed by simp
qed

text \<open>
  C8. When the velocity that \<open>seek\<close> leaves is the zero vector, the forward vector is
  the one before the call; when it is not zero, the forward vector is the velocity
  divided by its length, and has length one.
\<close>

theorem seek_forward:
  assumes "seek delta_s b = Some b'"
  shows "(velocity b' = (0, 0, 0) \<longrightarrow> forward b' = forward b)
       \<and> (velocity b' \<noteq> (0, 0, 0) \<longrightarrow>
            forward b' = vec3_scale (velocity b') (1 / vec3_length (velocity b'))
            \<and> vec3_length (forward b') = 1)"
proof -
  from assms have nz: "delta_s \<noteq> 0" by (auto simp: seek_def split: if_splits)
  from assms nz have f: "forward b' = vec3_normalize (forward b) (velocity b')"
    by (auto simp: seek_def Let_def)
  show ?thesis
    using vec3_normalize_zero [of "forward b"] vec3_normalize_nonzero [of "velocity b'" "forward b"]
    by (simp add: f)
qed

theorem seek_forward_witness:
  "seek 1 bat0 = Some bat0 \<and> velocity bat0 = (0, 0, 0)
   \<and> seek 1 bat_cruise = Some (bat_cruise\<lparr> position := (3, 15, 4), forward := (3 / 5, 0, 4 / 5) \<rparr>)
   \<and> vec3_length (3 / 5, 0, 4 / 5) = 1"
  using seek_forward [OF seek_bat0] seek_forward [OF seek_bat_cruise] seek_bat0 seek_bat_cruise
  by (simp add: bat0_def bat_cruise_def)

text \<open>
  C7. The claim is that the speed of a bat never exceeds \<open>S_MAX\<close>, from construction
  on. The constructor draws the x and the z component of the velocity each from
  \<open>[0, S_MAX)\<close>: with both draws equal to 4 the new bat flies at the speed
  \<open>sqrt 32\<close>, above \<open>S_MAX = 5\<close>.
\<close>

theorem constructor_speed_exceeds_S_MAX:
  "(0::real) \<le> 4 \<and> 4 < S_MAX
   \<and> vec3_length (velocity (Bat_new (0, 15, 0) 0.7 0.1 4 4 (6, 0, 8) (1, 0, 0))) > S_MAX"
proof -
  have "(5::real) < sqrt 32" by (rule real_less_rsqrt) simp
  then show ?thesis by (simp add: Bat_new_def Let_def vec3_length_def S_MAX_def)
qed

section \<open>The state machine of the bat\<close>

text \<open>
  C2. An update of a bat whose state is \<open>DEAD\<close> returns the bat as it was, so its
  position, velocity, state and target position are unchanged, whatever the time step,
  the player and the world.
\<close>

theorem dead_update_noop:
  assumes "state b = DEAD"
  shows "update cylinderIntersection w p rnd delta_ms b = Some b"
  using assms by (simp add: update_def)

theorem dead_update_noop_witness:
  "state (bat0\<lparr> state := DEAD \<rparr>) = DEAD
   \<and> update upright_cylinderIntersection single_disk_world player0 (3, 0, 3) 16 (bat0\<lparr> state := DEAD \<rparr>)
       = Some (bat0\<lparr> state := DEAD \<rparr>)"
proof -
  have h: "state (bat0\<lparr> state := DEAD \<rparr>) = DEAD" by simp
  show ?thesis
    using h dead_update_noop [OF h, of upright_cylinderIntersection single_disk_world player0 "(3, 0, 3)" 16]
    by simp
qed

text \<open>
  C5, as claimed: a bat that is not dead and whose cylinder, of its radius and its
  half height, collides with a disk is dead after the update. The update asks the world
  about the cylinder of the bat's radius and of half height 0: the sample bat, 0.05
  above the disk with half height 0.1, touches the disk with its own cylinder and is in
  pursuit after the update.
\<close>

theorem bat_cylinder_collision_counterexample:
  "state bat0 \<noteq> DEAD
   \<and> isCylinderCollisionWithDisk single_disk_world (position bat0) (radius bat0) (half_height bat0)
   \<and> map_option state (update upright_cylinderIntersection single_disk_world player0 (3, 0, 3) 16 bat0)
       = Some PURSUE"
proof -
  have a: "state bat0 \<noteq> DEAD" by (simp add: bat0_def)
  have b: "isCylinderCollisionWithDisk single_disk_world (position bat0) (radius bat0) (half_height bat0)"
    by (simp add: bat0_def single_disk_world_def)
  have c: "\<not> isCylinderCollisionWithDisk single_disk_world (position bat0) (radius bat0) 0"
    by (simp add: bat0_def single_disk_world_def)
  have d: "upright_cylinderIntersection (position bat0) (radius bat0 + 20) (half_height bat0 + 20)
             (p_position player0) (p_radius player0) (p_half_height player0)"
    by (simp add: bat0_def player0_def upright_cylinderIntersection_def)
  show ?thesis
    using a b d update_alive_state [OF a c, of 16 upright_cylinderIntersection player0 "(3, 0, 3)"]
    by simp
qed

text \<open>
  C5, amended: a bat that is not dead and for which the world reports a collision of the
  cylinder of the bat's radius and of half height 0 at the bat's position is dead after
  the update, with \<open>ignore_timer\<close> 1.0 and with the position and the velocity it had.
\<close>

theorem bat_terrain_death:
  assumes "state b \<noteq> DEAD"
    and "isCylinderCollisionWithDisk w (position b) (radius b) 0"
  shows "\<exists>b'. update cylinderIntersection w p rnd delta_ms b = Some b'
           \<and> state b' = DEAD \<and> ignore_timer b' = 1.0
           \<and> position b' = position b \<and> velocity b' = velocity b"
  using assms by (simp add: update_def Let_def)

theorem bat_terrain_death_witness:
  "state (bat_cruise\<lparr> position := (0, 0, 0) \<rparr>) \<noteq> DEAD
   \<and> isCylinderCollisionWithDisk single_disk_world (0, 0, 0) (radius bat_cruise) 0
   \<and> (\<exists>b'. update upright_cylinderIntersection single_disk_world player0 (3, 0, 3) 16
               (bat_cruise\<lparr> position := (0, 0, 0) \<rparr>) = Some b'
           \<and> state b' = DEAD \<and> ignore_timer b' = 1.0
           \<and> position b' = (0, 0, 0) \<and> velocity b' = (3, 0, 4))"
proof -
  have a: "state (bat_cruise\<lparr> position := (0, 0, 0) \<rparr>) \<noteq> DEAD" by (simp add: bat_cruise_def)
  have b: "isCylinderCollisionWithDisk single_disk_world
             (position (bat_cruise\<lparr> position := (0, 0, 0) \<rparr>))
             (radius (bat_cruise\<lparr> position := (0, 0, 0) \<rparr>)) 0"
    by (simp add: bat_cruise_def single_disk_world_def)
  show ?thesis
    using a b bat_terrain_death [OF a b, of upright_cylinderIntersection player0 "(3, 0, 3)" 16]
    by (simp add: bat_cruise_def)
qed

text \<open>
  C10. Two bats that are not dead and differ in \<open>ignore_timer\<close> only have, after the
  same update, the same state, position, velocity, forward vector and target position.
\<close>

theorem update_ignores_ignore_timer:
  assumes "state b \<noteq> DEAD"
  shows "map_option bat_motion (update cylinderIntersection w p rnd delta_ms (b\<lparr> ignore_timer := t \<rparr>))
         = map_option bat_motion (update cylinderIntersection w p rnd delta_ms b)"
  using assms
  by (simp add: update_def Let_def explore_def pursue_def seek_def bat_motion_def)

theorem update_ignores_ignore_timer_witness:
  "state bat_cruise \<noteq> DEAD
   \<and> map_option bat_motion
       (update upright_cylinderIntersection single_disk_world player0 (3, 0, 3) 16
          (bat_cruise\<lparr> ignore_timer := 0.5 \<rparr>))
     = map_option bat_motion
       (update upright_cylinderIntersection single_disk_world player0 (3, 0, 3) 16 bat_cruise)
   \<and> map_option state
       (update upright_cylinderIntersection single_disk_world player0 (3, 0, 3) 16 bat_cruise)
     = Some PURSUE"
proof -
  have a: "state bat_cruise \<noteq> DEAD" by (simp add: bat_cruise_def)
  have c: "\<not> isCylinderCollisionWithDisk single_disk_world (position bat_cruise) (radius bat_cruise) 0"
    by (simp add: bat_cruise_def single_disk_world_def)
  have d: "upright_cylinderIntersection (position bat_cruise) (radius bat_cruise + 20)
             (half_height bat_cruise + 20) (p_position player0) (p_radius player0)
             (p_half_height player0)"
    by (simp add: bat_cruise_def player0_def upright_cylinderIntersection_def)
  show ?thesis
    using a d update_alive_state [OF a c, of 16 upright_cylinderIntersection player0 "(3, 0, 3)"]
      update_ignores_ignore_timer [OF a, of upright_cylinderIntersection single_disk_world
        player0 "(3, 0, 3)" 16 "0.5"]
    by simp
qed

section \<open>The bat's hit on the player\<close>

text \<open>
  C9. The claim is that \<open>hitByBat\<close> leaves the vector it is given as it was. While
  the player is jumping the call normalizes that vector in place: given \<open>(3, 0, 4)\<close>,
  the vector holds \<open>(3/5, 0, 4/5)\<close> after the call.
\<close>

theorem hitByBat_mutates_argument:
  "jumping player_air \<and> snd (hitByBat (3, 0, 4) player_air) = (3 / 5, 0, 4 / 5)"
  by (simp add: player_air_def player0_def hitByBat_def vec3_normalize_def sqrt_25)

text \<open>
  C6, as claimed: every hit on a grounded player leaves the player with the horizontal
  speed 5. A bat velocity with no horizontal part, \<open>(0, 3, 0)\<close>, leaves the player with
  the velocity \<open>(0, 5, 0)\<close>, of horizontal speed 0.
\<close>

theorem hitByBat_grounded_counterexample:
  "\<not> jumping player0 \<and> p_velocity (fst (hitByBat (0, 3, 0) player0)) = (0, 5, 0)"
  by (simp add: player0_def hitByBat_def vec3_normalize_def)

text \<open>
  C6, amended: a hit on a grounded player puts the player in the jumping state with the
  vertical speed 5; when the bat's velocity has a horizontal part, the player's velocity
  is replaced by that horizontal part scaled to the speed 5, with the vertical component
  5, and when it has none, by \<open>(0, 5, 0)\<close>. With the bat velocity \<open>(1, 0, 0)\<close> the
  player's velocity is \<open>(5, 5, 0)\<close>.
\<close>

theorem hitByBat_grounded:
  assumes "\<not> jumping p"
  shows "jumping (fst (hitByBat (bx, by, bz) p))
       \<and> model_state (fst (hitByBat (bx, by, bz) p)) = Jumping
       \<and> vy (p_velocity (fst (hitByBat (bx, by, bz) p))) = 5
       \<and> (bx \<noteq> 0 \<or> bz \<noteq> 0 \<longrightarrow>
            p_velocity (fst (hitByBat (bx, by, bz) p))
              = (bx / sqrt (bx * bx + bz * bz) * 5, 5, bz / sqrt (bx * bx + bz * bz) * 5)
            \<and> sqrt ((vx (p_velocity (fst (hitByBat (bx, by, bz) p))))\<^sup>2
                   + (vz (p_velocity (fst (hitByBat (bx, by, bz) p))))\<^sup>2) = 5)
       \<and> (bx = 0 \<and> bz = 0 \<longrightarrow> p_velocity (fst (hitByBat (bx, by, bz) p)) = (0, 5, 0))"
proof -
  let ?q = "bx * bx + bz * bz"
  have q0: "0 \<le> ?q" by simp
  have zero: "bx = 0 \<and> bz = 0 \<Longrightarrow> p_velocity (fst (hitByBat (bx, by, bz) p)) = (0, 5, 0)"
    using assms by (simp add: hitByBat_def vec3_normalize_def)
  have nonzero: "p_velocity (fst (hitByBat (bx, by, bz) p)) = (bx / sqrt ?q * 5, 5, bz / sqrt ?q * 5)
       \<and> sqrt ((vx (p_velocity (fst (hitByBat (bx, by, bz) p))))\<^sup>2
                   + (vz (p_velocity (fst (hitByBat (bx, by, bz) p))))\<^sup>2) = 5"
    if h: "bx \<noteq> 0 \<or> bz \<noteq> 0"
  proof -
    have "?q \<noteq> 0" using h sum_squares_eq_zero_iff [of bx bz] by simp
    then have qpos: "0 < ?q" using q0 by linarith
    have v: "p_velocity (fst (hitByBat (bx, by, bz) p)) = (bx / sqrt ?q * 5, 5, bz / sqrt ?q * 5)"
      using assms qpos by (simp add: hitByBat_def vec3_normalize_def Let_def)
    define q where "q = ?q"
    define r where "r = sqrt q"
    have qp: "0 < q" using qpos by (simp add: q_def)
    have rpos: "0 < r" using qp by (simp add: r_def)
    have rr: "r * r = q" using qp unfolding r_def by (metis abs_of_pos real_sqrt_mult_self)
    have "(bx / r * 5)\<^sup>2 + (bz / r * 5)\<^sup>2 = 25 * (bx * bx + bz * bz) / (r * r)"
      using rpos by (simp add: power2_eq_square field_simps)
    also have "\<dots> = 25 * q / q" by (simp only: rr q_def)
    also have "\<dots> = 25" using qp by simp
    finally have "sqrt ((bx / r * 5)\<^sup>2 + (bz / r * 5)\<^sup>2) = 5"
      by (simp add: sqrt_25)
    then have "sqrt ((bx / sqrt ?q * 5)\<^sup>2 + (bz / sqrt ?q * 5)\<^sup>2) = 5"
      by (simp only: r_def q_def)
    then show ?thesis by (simp only: v vx.simps vz.simps simp_thms)
  qed
  have rest: "jumping (fst (hitByBat (bx, by, bz) p))
       \<and> model_state (fst (hitByBat (bx, by, bz) p)) = Jumping
       \<and> vy (p_velocity (fst (hitByBat (bx, by, bz) p))) = 5"
    using assms by (simp add: hitByBat_def vec3_normalize_def Let_def)
  show ?thesis using rest zero nonzero by blast
qed

theorem hitByBat_grounded_witness:
  "\<not> jumping player0
   \<and> p_velocity (fst (hitByBat (1, 0, 0) player0)) = (5, 5, 0)
   \<and> jumping (fst (hitByBat (1, 0, 0) player0))
   \<and> model_state (fst (hitByBat (1, 0, 0) player0)) = Jumping"
proof -
  have g: "\<not> jumping player0" by (simp add: player0_def)
  show ?thesis using g hitByBat_grounded [OF g, of 1 0 0] by simp
qed

section \<open>The update of the player\<close>

text \<open>
  C4. In an update of a jumping player whose predicted position collides with a disk:
  when the old position collides too, the player is grounded, its vertical velocity is
  zero, the height of its new position is the terrain height under the predicted
  position plus the half height, and its horizontal velocity is unchanged; otherwise
  its horizontal velocity is zero and its horizontal position is the old one, while it
  keeps jumping with the vertical velocity that gravity gives and the predicted height.
\<close>

theorem jumping_collision_response:
  assumes "jumping p"
    and "new_pos = vec3_scaleAndAdd (p_position p) (p_velocity p) (delta_time_ms / 1000)"
    and "isCylinderCollisionWithDisk w new_pos (model_radius p) (model_half_height p)"
  shows "\<exists>p'. Player_update w delta_time_ms (p, s) = Some (p', s)
     \<and> (if isCylinderCollisionWithDisk w (p_position p) (model_radius p) (model_half_height p)
        then \<not> jumping p' \<and> model_state p' = Standing
           \<and> vy (p_velocity p') = 0
           \<and> vy (p_position p')
               = getHeightAtCirclePosition w (vx new_pos) (vz new_pos) (model_radius p)
                 + model_half_height p
           \<and> vx (p_position p') = vx new_pos \<and> vz (p_position p') = vz new_pos
           \<and> vx (p_velocity p') = vx (p_velocity p) \<and> vz (p_velocity p') = vz (p_velocity p)
        else jumping p' \<and> model_state p' = model_state p
           \<and> vx (p_velocity p') = 0 \<and> vz (p_velocity p') = 0
           \<and> vx (p_position p') = vx (p_position p) \<and> vz (p_position p') = vz (p_position p)
           \<and> vy (p_velocity p') = vy (p_velocity p) + (- 9.8) * (delta_time_ms / 1000)
           \<and> vy (p_position p') = vy (p_position p) + vy (p_velocity p) * (delta_time_ms / 1000))"
proof -
  obtain x y z where pos: "p_position p = (x, y, z)" by (cases "p_position p")
  obtain u v t where vel: "p_velocity p = (u, v, t)" by (cases "p_velocity p")
  show ?thesis
    using assms by (simp add: Player_update_def Let_def GRAVITY_def pos vel)
qed

theorem jumping_collision_response_witness:
  "jumping player_air
   \<and> isCylinderCollisionWithDisk single_disk_world (1 / 10, 2 / 5, 0) (model_radius player_air)
       (model_half_height player_air)
   \<and> isCylinderCollisionWithDisk single_disk_world (p_position player_air) (model_radius player_air)
       (model_half_height player_air)
   \<and> (\<exists>p'. Player_update single_disk_world 100 (player_air, scratch_init) = Some (p', scratch_init)
         \<and> \<not> jumping p' \<and> model_state p' = Standing
         \<and> vy (p_velocity p') = 0 \<and> vy (p_position p') = 4 / 5
         \<and> vx (p_velocity p') = 1 \<and> vz (p_velocity p') = 0)
   \<and> jumping player_high
   \<and> isCylinderCollisionWithDisk single_disk_world (1 / 10, 1 / 2, 0) (model_radius player_high)
       (model_half_height player_high)
   \<and> \<not> isCylinderCollisionWithDisk single_disk_world (p_position player_high)
         (model_radius player_high) (model_half_height player_high)
   \<and> (\<exists>p'. Player_update single_disk_world 100 (player_high, scratch_init) = Some (p', scratch_init)
         \<and> jumping p'
         \<and> vx (p_velocity p') = 0 \<and> vz (p_velocity p') = 0
         \<and> vx (p_position p') = 0 \<and> vz (p_position p') = 0
         \<and> vy (p_velocity p') = - 5 - 98 / 100
         \<and> vy (p_position p') = 1 / 2)"
proof -
  have a1: "jumping player_air" by (simp add: player_air_def)
  have a2: "(1 / 10, 2 / 5, 0)
             = vec3_scaleAndAdd (p_position player_air) (p_velocity player_air) (100 / 1000)"
    by (simp add: player_air_def)
  have a3: "isCylinderCollisionWithDisk single_disk_world (1 / 10, 2 / 5, 0)
              (model_radius player_air) (model_half_height player_air)"
    by (simp add: player_air_def player0_def single_disk_world_def power2_eq_square)
  have a4: "isCylinderCollisionWithDisk single_disk_world (p_position player_air)
              (model_radius player_air) (model_half_height player_air)"
    by (simp add: player_air_def player0_def single_disk_world_def power2_eq_square)
  have b1: "jumping player_high" by (simp add: player_high_def)
  have b2: "(1 / 10, 1 / 2, 0)
             = vec3_scaleAndAdd (p_position player_high) (p_velocity player_high) (100 / 1000)"
    by (simp add: player_high_def)
  have b3: "isCylinderCollisionWithDisk single_disk_world (1 / 10, 1 / 2, 0)
              (model_radius player_high) (model_half_height player_high)"
    by (simp add: player_high_def player0_def single_disk_world_def power2_eq_square)
  have b4: "\<not> isCylinderCollisionWithDisk single_disk_world (p_position player_high)
              (model_radius player_high) (model_half_height player_high)"
    by (simp add: player_high_def player0_def single_disk_world_def power2_eq_square)
  have h: "getHeightAtCirclePosition single_disk_world (1 / 10) 0 (1 / 4) = 0"
    by (simp add: single_disk_world_def power2_eq_square)
  have r1: "\<exists>p'. Player_update single_disk_world 100 (player_air, scratch_init) = Some (p', scratch_init)
         \<and> \<not> jumping p' \<and> model_state p' = Standing
         \<and> vy (p_velocity p') = 0 \<and> vy (p_position p') = 4 / 5
         \<and> vx (p_velocity p') = 1 \<and> vz (p_velocity p') = 0"
    using jumping_collision_response [OF a1 a2 a3, of scratch_init] a4 h
    by (simp add: player_air_def player0_def) blast
  have r2: "\<exists>p'. Player_update single_disk_world 100 (player_high, scratch_init) = Some (p', scratch_init)
         \<and> jumping p'
         \<and> vx (p_velocity p') = 0 \<and> vz (p_velocity p') = 0
         \<and> vx (p_position p') = 0 \<and> vz (p_position p') = 0
         \<and> vy (p_velocity p') = - 5 - 98 / 100
         \<and> vy (p_position p') = 1 / 2"
    using jumping_collision_response [OF b1 b2 b3, of scratch_init] b4
    by (simp add: player_high_def player0_def) blast
  show ?thesis using a1 a3 a4 r1 b1 b3 b4 r2 by blast
qed

subsection \<open>The sampling loop\<close>

lemma sample_loop_step:
  "i < 60 \<Longrightarrow> sample_loop w np i mh s =
     (if sample_height w np i < mh
      then sample_loop w np (i + 1) (sample_height w np i)
             (s\<lparr> dir_array := sample_dir i, min_direction := DIR_ARRAY \<rparr>)
      else sample_loop w np (i + 1) mh (s\<lparr> dir_array := sample_dir i \<rparr>))"
  by (subst sample_loop.simps)
     (simp add: Let_def write_vec2_def read_vec2_def sample_dir_def sample_height_def)

lemma sample_loop_done: "\<not> i < 60 \<Longrightarrow> sample_loop w np i mh s = (mh, s)"
  by (subst sample_loop.simps) simp

lemma sample_loop_min_direction_array:
  "min_direction_array (snd (sample_loop w np i mh s)) = min_direction_array s"
proof (induction "60 - i" arbitrary: i mh s)
  case 0
  then show ?case by (simp add: sample_loop_done)
next
  case (Suc n)
  then have lt: "i < 60" and n: "n = 60 - (i + 1)" by simp_all
  show ?case using Suc.hyps(1) [OF n] by (simp add: sample_loop_step [OF lt])
qed

lemma sample_loop_dir_array:
  "i < 60 \<Longrightarrow> dir_array (snd (sample_loop w np i mh s)) = sample_dir 59"
proof (induction "60 - i" arbitrary: i mh s)
  case 0
  then show ?case by simp
next
  case (Suc n)
  then have lt: "i < 60" and n: "n = 60 - (i + 1)" by simp_all
  show ?case
  proof (cases "i + 1 < 60")
    case True
    then show ?thesis using Suc.hyps(1) [OF n True] by (simp add: sample_loop_step [OF lt])
  next
    case False
    then have "i = 59" using lt by simp
    then show ?thesis by (simp add: sample_loop_step sample_loop_done)
  qed
qed

lemma sample_loop_min_direction:
  "min_direction (snd (sample_loop w np i mh s)) =
     (if \<exists>j. i \<le> j \<and> j < 60 \<and> sample_height w np j < mh then DIR_ARRAY else min_direction s)"
proof (induction "60 - i" arbitrary: i mh s)
  case 0
  then show ?case by (auto simp add: sample_loop_done)
next
  case (Suc n)
  then have lt: "i < 60" and n: "n = 60 - (i + 1)" by simp_all
  show ?case
  proof (cases "sample_height w np i < mh")
    case True
    then have "\<exists>j. i \<le> j \<and> j < 60 \<and> sample_height w np j < mh" using lt by blast
    then show ?thesis using True Suc.hyps(1) [OF n] by (simp add: sample_loop_step [OF lt])
  next
    case False
    have eq: "(\<exists>j. i \<le> j \<and> j < 60 \<and> sample_height w np j < mh)
          \<longleftrightarrow> (\<exists>j. i + 1 \<le> j \<and> j < 60 \<and> sample_height w np j < mh)"
      using False by (metis Suc_eq_plus1 Suc_leD Suc_leI le_neq_implies_less)
    have "min_direction (snd (sample_loop w np i mh s))
            = min_direction (snd (sample_loop w np (i + 1) mh (s\<lparr> dir_array := sample_dir i \<rparr>)))"
      using False by (simp add: sample_loop_step [OF lt])
    also have "\<dots> = (if \<exists>j. i + 1 \<le> j \<and> j < 60 \<and> sample_height w np j < mh
                        then DIR_ARRAY else min_direction s)"
      unfolding Suc.hyps(1) [OF n] by auto
    finally show ?thesis unfolding eq .
  qed
qed

lemma sample_loop_min_le:
  "fst (sample_loop w np i mh s) \<le> mh"
  "i \<le> j \<Longrightarrow> j < 60 \<Longrightarrow> fst (sample_loop w np i mh s) \<le> sample_height w np j"
proof (induction "60 - i" arbitrary: i mh s)
  case 0
  { case 1 then show ?case using 0 by (simp add: sample_loop_done) }
  { case 2 then show ?case using 0 by simp }
next
  case (Suc n)
  then have lt: "i < 60" and n: "n = 60 - (i + 1)" by simp_all
  { case 1
    show ?case using Suc.hyps(1) [OF n, of "sample_height w np i"] Suc.hyps(1) [OF n, of mh]
      by (simp add: sample_loop_step [OF lt]) (smt (verit)) }
  { case 2
    show ?case
    proof (cases "j = i")
      case True
      then show ?thesis
        using Suc.hyps(1) [OF n, of "sample_height w np i"] Suc.hyps(1) [OF n, of mh]
        by (simp add: sample_loop_step [OF lt]) (smt (verit))
    next
      case False
      then have "i + 1 \<le> j" using 2 by simp
      then show ?thesis using Suc.hyps(2) [OF n _ 2(2)] by (simp add: sample_loop_step [OF lt])
    qed }
qed

lemma sample_loop_min_ge:
  "c \<le> mh \<Longrightarrow> (\<And>j. i \<le> j \<Longrightarrow> j < 60 \<Longrightarrow> c \<le> sample_height w np j)
     \<Longrightarrow> c \<le> fst (sample_loop w np i mh s)"
proof (induction "60 - i" arbitrary: i mh s)
  case 0
  then show ?case by (simp add: sample_loop_done)
next
  case (Suc n)
  then have lt: "i < 60" and n: "n = 60 - (i + 1)" by simp_all
  have hi: "c \<le> sample_height w np i" using Suc.prems(2) [of i] lt by simp
  have rest: "\<And>j. i + 1 \<le> j \<Longrightarrow> j < 60 \<Longrightarrow> c \<le> sample_height w np j"
    using Suc.prems(2) by simp
  show ?case
    using Suc.hyps(1) [OF n hi rest] Suc.hyps(1) [OF n Suc.prems(1) rest]
    by (simp add: sample_loop_step [OF lt])
qed

subsection \<open>A run on the ramp\<close>

lemma sample_dir_cos_sin: "sample_dir i = (cos (pi * 2 * (real i / 60)), sin (pi * 2 * (real i / 60)))"
  by (simp add: sample_dir_def)

lemma sample_dir_30: "sample_dir 30 = (- 1, 0)"
  by (simp add: sample_dir_def)

lemma sample_dir_59_uphill: "0 < fst (sample_dir 59)"
proof -
  have "pi * 2 * (real 59 / 60) = 2 * pi - pi / 30" by simp
  then have "cos (pi * 2 * (real 59 / 60)) = cos (pi / 30)"
    by (simp only: cos_2pi_minus)
  moreover have "0 < cos (pi / 30)"
    by (rule cos_gt_zero_pi) simp_all
  ultimately show ?thesis by (simp add: sample_dir_cos_sin)
qed

lemma ramp_sample_height: "sample_height ramp_world (0, y, 0) i = cos (pi * 2 * (real i / 60)) * 0.01"
  by (simp add: sample_height_def ramp_world_def sample_dir_cos_sin)

lemma ramp_loop_min:
  "fst (sample_loop ramp_world (0, y, 0) 0 (1 / 4) s) = - (1 / 100)"
proof -
  have "fst (sample_loop ramp_world (0, y, 0) 0 (1 / 4) s) \<le> sample_height ramp_world (0, y, 0) 30"
    by (rule sample_loop_min_le) simp_all
  then have le: "fst (sample_loop ramp_world (0, y, 0) 0 (1 / 4) s) \<le> - (1 / 100)"
    by (simp add: ramp_sample_height)
  have "\<And>j. - (1 / 100) \<le> sample_height ramp_world (0, y, 0) j"
    using cos_ge_minus_one by (simp add: ramp_sample_height)
  then have "- (1 / 100) \<le> fst (sample_loop ramp_world (0, y, 0) 0 (1 / 4) s)"
    by (intro sample_loop_min_ge) simp_all
  with le show ?thesis by simp
qed

lemma ramp_loop_scratch:
  "snd (sample_loop ramp_world (0, y, 0) 0 (1 / 4) scratch_init)
     = \<lparr> dir_array = sample_dir 59, min_direction_array = (0, 0), min_direction = DIR_ARRAY \<rparr>"
proof -
  have "sample_height ramp_world (0, y, 0) 0 < 1 / 4" by (simp add: ramp_sample_height)
  then have ex: "\<exists>j. 0 \<le> j \<and> j < 60 \<and> sample_height ramp_world (0, y, 0) j < 1 / 4"
    by (intro exI [of _ 0]) simp
  have a: "min_direction (snd (sample_loop ramp_world (0, y, 0) 0 (1 / 4) scratch_init)) = DIR_ARRAY"
    unfolding sample_loop_min_direction using ex by simp
  have b: "dir_array (snd (sample_loop ramp_world (0, y, 0) 0 (1 / 4) scratch_init)) = sample_dir 59"
    by (rule sample_loop_dir_array) simp
  have c: "min_direction_array (snd (sample_loop ramp_world (0, y, 0) 0 (1 / 4) scratch_init)) = (0, 0)"
    by (simp add: sample_loop_min_direction_array scratch_init_def)
  show ?thesis using a b c by (cases "snd (sample_loop ramp_world (0, y, 0) 0 (1 / 4) scratch_init)") simp
qed

lemma ramp_loop:
  "sample_loop ramp_world (0, y, 0) 0 (1 / 4) scratch_init
     = (- (1 / 100), \<lparr> dir_array = sample_dir 59, min_direction_array = (0, 0),
                         min_direction = DIR_ARRAY \<rparr>)"
  using ramp_loop_min [of y scratch_init] ramp_loop_scratch [of y]
  by (cases "sample_loop ramp_world (0, y, 0) 0 (1 / 4) scratch_init") simp

lemma ramp_world_fields:
  "isOnDisk ramp_world x z r = True"
  "getHeightAtCirclePosition ramp_world x z r = x + r"
  "getFrictionAtPosition ramp_world x z = 1"
  "getSlopeFactorAtPosition ramp_world x z = 1"
  by (simp_all add: ramp_world_def)

lemma player_ramp_update:
  "Player_update ramp_world 100 (player_ramp, scratch_init)
     = Some (player_ramp\<lparr> p_velocity := (fst (sample_dir 59) * 25, 0, snd (sample_dir 59) * 25) \<rparr>,
             \<lparr> dir_array = sample_dir 59, min_direction_array = (0, 0),
               min_direction = DIR_ARRAY \<rparr>)"
proof -
  have w: "write_vec2 scratch_init (min_direction scratch_init) (0, 0) = scratch_init"
    by (simp add: write_vec2_def scratch_init_def)
  have pw: "Math_pow 1 (1 / 10) = Some 1"
    by (simp add: Math_pow_def)
  show ?thesis
    unfolding Player_update_def
    by (simp add: Let_def player_ramp_def ramp_world_fields w pw ramp_loop
        addAcceleration_def read_vec2_def)
qed

text \<open>
  C3. The claim is that the sliding acceleration points along the sample direction
  whose terrain height is lowest. The loop stores in \<open>min_direction\<close> a reference to
  the \<open>dir\<close> array, which the later iterations overwrite, so the direction read after
  the loop is the one of the last index, 59. On the ramp the player at rest gets, in
  0.1 s, the velocity of magnitude 25 along direction 59, which points up the ramp
  (its x component is positive), while the sample at index 30, in direction
  \<open>(-1, 0)\<close>, is lower than the sample at index 59.
\<close>

theorem slide_not_along_lowest_sample:
  "\<not> jumping player_ramp
   \<and> isOnDisk ramp_world 0 0 (model_radius player_ramp)
   \<and> map_option (p_velocity \<circ> fst) (Player_update ramp_world 100 (player_ramp, scratch_init))
       = Some (fst (sample_dir 59) * 25, 0, snd (sample_dir 59) * 25)
   \<and> 0 < fst (sample_dir 59)
   \<and> sample_dir 30 = (- 1, 0)
   \<and> sample_height ramp_world (0, 1.05, 0) 30 < sample_height ramp_world (0, 1.05, 0) 59"
proof -
  have a: "\<not> jumping player_ramp" by (simp add: player_ramp_def)
  have b: "isOnDisk ramp_world 0 0 (model_radius player_ramp)" by (simp add: ramp_world_fields)
  have c: "map_option (p_velocity \<circ> fst) (Player_update ramp_world 100 (player_ramp, scratch_init))
       = Some (fst (sample_dir 59) * 25, 0, snd (sample_dir 59) * 25)"
    by (simp add: player_ramp_update)
  have d: "sample_height ramp_world (0, 1.05, 0) 30 < sample_height ramp_world (0, 1.05, 0) 59"
    using sample_dir_59_uphill by (simp add: ramp_sample_height sample_dir_cos_sin)
  show ?thesis using a b c d sample_dir_59_uphill sample_dir_30 by blast
qed

end
